theory Spec2Isabelle
  imports Complex_Main "HOL-Library.Word"
begin

section \<open>IMediaTextureSample.h: the media texture sample interface\<close>

text \<open>
  The header declares two enumerations, the value type
  \<open>FMediaTextureTilingDescription\<close> and the abstract class
  \<open>IMediaTextureSample\<close>. The class has no data members: an object is an
  instance of some implementing class, so it is modelled by the pair of
  \<^item> the implementing class, a record holding one function per pure-virtual
    method and one optional function per virtual method that has a default body
    (\<open>None\<close>: the class inherits the body written in the header), and
  \<^item> the object's own state \<open>'st\<close>, on which the implementing class works.

  Methods declared \<open>const\<close> read the state; the two methods that are not
  (\<open>GetBuffer\<close>, \<open>GetMediaTextureSampleConverter\<close>) and \<open>Reset\<close> may change it
  and return the new state. The model takes the result of a method to be determined
  by the class and the object's state. It describes the build with \<open>WITH_ENGINE\<close>
  set, which is the one that declares every member.
\<close>

subsection \<open>Scalar types and types of the headers that are included\<close>

type_synonym int32 = "32 word"
type_synonym uint8 = "8 word"
type_synonym uint32 = "32 word"

text \<open>
  A pointer (\<open>const void*\<close>, \<open>FRHITexture*\<close>, \<open>IMediaTextureSampleConverter*\<close>)
  is either null or the address of something.
\<close>

datatype ptr = nullptr | Addr nat

text \<open>
  Math/IntPoint.h, Math/Color.h, Math/Plane.h and Math/Matrix.h are included, not
  part of the sources. Of \<open>FIntPoint\<close> the header uses the members \<open>X\<close> and \<open>Y\<close>,
  read as \<open>int32\<close>, and the constant \<open>ZeroValue\<close>; of the three others it uses
  the constructors only, which are modelled as datatype constructors over the
  exact values of their arguments.
\<close>

record FIntPoint =
  X :: int32
  Y :: int32

text \<open>
  Modelled from the spec: \<open>FIntPoint::ZeroValue\<close>, declared in Math/IntPoint.h,
  is the point whose two components are zero (the spec calls the default tiling
  descriptor the zero descriptor).
\<close>

definition ZeroValue :: FIntPoint where
  "ZeroValue = \<lparr>X = 0, Y = 0\<rparr>"

datatype FLinearColor = FLinearColor real real real real

datatype FPlane = FPlane real real real real

datatype FMatrix = FMatrix FPlane FPlane FPlane FPlane

subsection \<open>Floating-point values\<close>

text \<open>
  The header computes with \<open>float\<close> literals and with one \<open>double\<close> division.
  Their meaning is that of IEEE 754 arithmetic in its default mode, rounding to
  nearest with ties to even: \<open>ieee_round p emin x\<close> is the value nearest to \<open>x\<close>
  among the multiples of the unit in the last place of \<open>x\<close>, for a significand
  of \<open>p\<close> bits and a least exponent \<open>emin\<close> (below it, the subnormal values
  share one unit).
\<close>

definition round_half_even :: "real \<Rightarrow> int" where
  "round_half_even x =
     (let f = \<lfloor>x\<rfloor>; d = x - of_int f
      in if d < 1 / 2 then f else if 1 / 2 < d then f + 1 else if even f then f else f + 1)"

definition ieee_round :: "nat \<Rightarrow> int \<Rightarrow> real \<Rightarrow> real" where
  "ieee_round p emin x =
     (if x = 0 then 0
      else let e = max \<lfloor>log 2 \<bar>x\<bar>\<rfloor> emin; ulp = 2 powi (e - (int p - 1))
           in of_int (round_half_even (x / ulp)) * ulp)"

text \<open>
  The value of a \<open>float\<close> literal: single precision has 24 bits and least
  exponent -126. (A literal too large for the type is not a valid program, so
  overflow does not arise.)
\<close>

definition binary32 :: "real \<Rightarrow> real" where
  "binary32 x = ieee_round 24 (- 126) x"

text \<open>
  A \<open>double\<close> is a finite number, a zero with a minus sign, an infinity or
  not a number; \<open>Finite 0\<close> is the zero with a plus sign. Double precision has
  53 bits and least exponent -1022; a rounded magnitude of \<open>2 ^ 1024\<close> or more
  overflows to an infinity, and a result that rounds to zero keeps its sign.
\<close>

datatype double = Finite real | MinusZero | PlusInf | MinusInf | NaN

definition double_of_real :: "real \<Rightarrow> double" where
  "double_of_real x =
     (let r = ieee_round 53 (- 1022) x
      in if 2 ^ 1024 \<le> \<bar>r\<bar> then (if x < 0 then MinusInf else PlusInf)
         else if r = 0 then (if x < 0 then MinusZero else Finite 0)
         else Finite r)"

text \<open>
  The conversion \<open>(double)\<close> of an \<open>int32\<close> is exact: every 32-bit integer is a
  value of the type.
\<close>

definition double_of_int32 :: "int32 \<Rightarrow> double" where
  "double_of_int32 i = Finite (real_of_int (sint i))"

fun sign_bit :: "double \<Rightarrow> bool" where
  "sign_bit (Finite x) = (x < 0)"
| "sign_bit MinusZero = True"
| "sign_bit PlusInf = False"
| "sign_bit MinusInf = True"
| "sign_bit NaN = False"

fun finite_value :: "double \<Rightarrow> real" where
  "finite_value (Finite x) = x"
| "finite_value MinusZero = 0"
| "finite_value PlusInf = 0"
| "finite_value MinusInf = 0"
| "finite_value NaN = 0"

definition is_zero :: "double \<Rightarrow> bool" where
  "is_zero a \<longleftrightarrow> a = Finite 0 \<or> a = MinusZero"

definition is_inf :: "double \<Rightarrow> bool" where
  "is_inf a \<longleftrightarrow> a = PlusInf \<or> a = MinusInf"

text \<open>
  The operator \<open>/\<close> on two \<open>double\<close> values. It has a result for every pair of
  operands: not a number for 0/0 and for a quotient of infinities, an infinity
  for a division by zero, and the rounded quotient of two finite operands.
\<close>

definition double_div :: "double \<Rightarrow> double \<Rightarrow> double" where
  "double_div a b =
     (if a = NaN \<or> b = NaN then NaN
      else if (is_zero a \<and> is_zero b) \<or> (is_inf a \<and> is_inf b) then NaN
      else if is_inf a \<or> is_zero b then
        (if sign_bit a = sign_bit b then PlusInf else MinusInf)
      else if is_zero a \<or> is_inf b then
        (if sign_bit a = sign_bit b then Finite 0 else MinusZero)
      else double_of_real (finite_value a / finite_value b))"

subsection \<open>Enumerations\<close>

datatype EMediaTextureSampleFormat =
    Undefined
  | CharAYUV
  | CharBGRA
  | CharBGR10A2
  | CharBMP
  | CharNV12
  | CharNV21
  | CharUYVY
  | CharYUY2
  | CharYVYU
  | FloatRGB
  | FloatRGBA
  | YUVv210
  | Y416
  | DXT1
  | DXT5
  | YCoCg_DXT5
  | YCoCg_DXT5_Alpha_BC4

datatype EMediaOrientation = Original | CW90 | CW180 | CW270

subsection \<open>FMediaTextureTilingDescription\<close>

record FMediaTextureTilingDescription =
  TileNum :: FIntPoint
  TileSize :: FIntPoint
  TileBorderSize :: int32

text \<open>
  The default member initialisers: what \<open>FMediaTextureTilingDescription()\<close>
  constructs.
\<close>

definition FMediaTextureTilingDescription_default :: FMediaTextureTilingDescription where
  "FMediaTextureTilingDescription_default =
     \<lparr>TileNum = ZeroValue, TileSize = ZeroValue, TileBorderSize = 0\<rparr>"

text \<open>
  \<open>IsValid\<close> compares four \<open>int32\<close> members with the literal 0: signed
  comparisons.
\<close>

definition IsValid :: "FMediaTextureTilingDescription \<Rightarrow> bool" where
  "IsValid d \<longleftrightarrow>
     0 <s X (TileNum d) \<and> 0 <s Y (TileNum d) \<and> 0 <s X (TileSize d) \<and> 0 <s Y (TileSize d)"

subsection \<open>IMediaTextureSample\<close>

text \<open>
  An implementing class, in the order of the declarations of the header. A field
  named \<open>_impl\<close> is the class's body of a pure-virtual method; a field named
  \<open>_override\<close> is its body of a method that has a default one, if it gives any.
  \<open>FTimespan\<close>, \<open>FMediaTimeStamp\<close> and \<open>FTimecode\<close> come from headers that are
  not part of the sources and are only passed through: they are the type
  parameters \<open>'span\<close>, \<open>'stamp\<close> and \<open>'tc\<close>.
\<close>

record ('st, 'span, 'stamp, 'tc) IMediaTextureSample =
  GetBuffer_impl :: "'st \<Rightarrow> ptr \<times> 'st"
  GetDim_impl :: "'st \<Rightarrow> FIntPoint"
  GetNumMips_override :: "('st \<Rightarrow> uint8) option"
  GetTilingDescription_override :: "('st \<Rightarrow> FMediaTextureTilingDescription) option"
  GetDuration_impl :: "'st \<Rightarrow> 'span"
  GetFormat_impl :: "'st \<Rightarrow> EMediaTextureSampleFormat"
  GetOutputDim_impl :: "'st \<Rightarrow> FIntPoint"
  GetStride_impl :: "'st \<Rightarrow> uint32"
  GetTexture_impl :: "'st \<Rightarrow> ptr"
  GetMediaTextureSampleConverter_override :: "('st \<Rightarrow> ptr \<times> 'st) option"
  GetTime_impl :: "'st \<Rightarrow> 'stamp"
  GetTimecode_override :: "('st \<Rightarrow> 'tc option) option"
  IsCacheable_impl :: "'st \<Rightarrow> bool"
  IsOutputSrgb_impl :: "'st \<Rightarrow> bool"
  GetOrientation_override :: "('st \<Rightarrow> EMediaOrientation) option"
  GetAspectRatio_override :: "('st \<Rightarrow> double) option"
  GetScaleRotation_override :: "('st \<Rightarrow> FLinearColor) option"
  GetOffset_override :: "('st \<Rightarrow> FLinearColor) option"
  GetYUVToRGBMatrix_override :: "('st \<Rightarrow> FMatrix) option"
  Reset_override :: "('st \<Rightarrow> 'st) option"

text \<open>
  A call \<open>Sample->Method()\<close> on an object of class \<open>c\<close> in state \<open>this\<close>: virtual
  dispatch runs the class's body, and the header's body where the class gives none.
\<close>

definition GetBuffer ::
  "('st, 'span, 'stamp, 'tc) IMediaTextureSample \<Rightarrow> 'st \<Rightarrow> ptr \<times> 'st" where
  "GetBuffer c this = GetBuffer_impl c this"

definition GetDim ::
  "('st, 'span, 'stamp, 'tc) IMediaTextureSample \<Rightarrow> 'st \<Rightarrow> FIntPoint" where
  "GetDim c this = GetDim_impl c this"

definition GetNumMips ::
  "('st, 'span, 'stamp, 'tc) IMediaTextureSample \<Rightarrow> 'st \<Rightarrow> uint8" where
  "GetNumMips c this =
     (case GetNumMips_override c of None \<Rightarrow> 1 | Some body \<Rightarrow> body this)"

definition GetTilingDescription ::
  "('st, 'span, 'stamp, 'tc) IMediaTextureSample \<Rightarrow> 'st \<Rightarrow> FMediaTextureTilingDescription"
  where
  "GetTilingDescription c this =
     (case GetTilingDescription_override c of
        None \<Rightarrow> FMediaTextureTilingDescription_default
      | Some body \<Rightarrow> body this)"

definition GetDuration ::
  "('st, 'span, 'stamp, 'tc) IMediaTextureSample \<Rightarrow> 'st \<Rightarrow> 'span" where
  "GetDuration c this = GetDuration_impl c this"

definition GetFormat ::
  "('st, 'span, 'stamp, 'tc) IMediaTextureSample \<Rightarrow> 'st \<Rightarrow> EMediaTextureSampleFormat"
  where
  "GetFormat c this = GetFormat_impl c this"

definition GetOutputDim ::
  "('st, 'span, 'stamp, 'tc) IMediaTextureSample \<Rightarrow> 'st \<Rightarrow> FIntPoint" where
  "GetOutputDim c this = GetOutputDim_impl c this"

definition GetStride ::
  "('st, 'span, 'stamp, 'tc) IMediaTextureSample \<Rightarrow> 'st \<Rightarrow> uint32" where
  "GetStride c this = GetStride_impl c this"

definition GetTexture ::
  "('st, 'span, 'stamp, 'tc) IMediaTextureSample \<Rightarrow> 'st \<Rightarrow> ptr" where
  "GetTexture c this = GetTexture_impl c this"

definition GetMediaTextureSampleConverter ::
  "('st, 'span, 'stamp, 'tc) IMediaTextureSample \<Rightarrow> 'st \<Rightarrow> ptr \<times> 'st" where
  "GetMediaTextureSampleConverter c this =
     (case GetMediaTextureSampleConverter_override c of
        None \<Rightarrow> (nullptr, this)
      | Some body \<Rightarrow> body this)"

definition GetTime ::
  "('st, 'span, 'stamp, 'tc) IMediaTextureSample \<Rightarrow> 'st \<Rightarrow> 'stamp" where
  "GetTime c this = GetTime_impl c this"

text \<open>\<open>TOptional<FTimecode>\<close> is \<open>'tc option\<close>; \<open>TOptional<FTimecode>()\<close> is unset.\<close>

definition GetTimecode ::
  "('st, 'span, 'stamp, 'tc) IMediaTextureSample \<Rightarrow> 'st \<Rightarrow> 'tc option" where
  "GetTimecode c this =
     (case GetTimecode_override c of None \<Rightarrow> None | Some body \<Rightarrow> body this)"

definition IsCacheable ::
  "('st, 'span, 'stamp, 'tc) IMediaTextureSample \<Rightarrow> 'st \<Rightarrow> bool" where
  "IsCacheable c this = IsCacheable_impl c this"

definition IsOutputSrgb ::
  "('st, 'span, 'stamp, 'tc) IMediaTextureSample \<Rightarrow> 'st \<Rightarrow> bool" where
  "IsOutputSrgb c this = IsOutputSrgb_impl c this"

definition GetOrientation ::
  "('st, 'span, 'stamp, 'tc) IMediaTextureSample \<Rightarrow> 'st \<Rightarrow> EMediaOrientation" where
  "GetOrientation c this =
     (case GetOrientation_override c of None \<Rightarrow> Original | Some body \<Rightarrow> body this)"

text \<open>
  The default body of \<open>GetAspectRatio\<close> calls the virtual \<open>GetOutputDim\<close>,
  converts both components and divides them; it has no test on the divisor.
\<close>

definition GetAspectRatio ::
  "('st, 'span, 'stamp, 'tc) IMediaTextureSample \<Rightarrow> 'st \<Rightarrow> double" where
  "GetAspectRatio c this =
     (case GetAspectRatio_override c of
        None \<Rightarrow>
          (let OutputDim = GetOutputDim c this
           in double_div (double_of_int32 (X OutputDim)) (double_of_int32 (Y OutputDim)))
      | Some body \<Rightarrow> body this)"

text \<open>
  The literals \<open>1.0f\<close> and \<open>0.0f\<close> denote 1 and 0 exactly: both numbers are values
  of every binary floating-point format.
\<close>

definition GetScaleRotation ::
  "('st, 'span, 'stamp, 'tc) IMediaTextureSample \<Rightarrow> 'st \<Rightarrow> FLinearColor" where
  "GetScaleRotation c this =
     (case GetScaleRotation_override c of
        None \<Rightarrow> FLinearColor 1 0 0 1
      | Some body \<Rightarrow> body this)"

definition GetOffset ::
  "('st, 'span, 'stamp, 'tc) IMediaTextureSample \<Rightarrow> 'st \<Rightarrow> FLinearColor" where
  "GetOffset c this =
     (case GetOffset_override c of
        None \<Rightarrow> FLinearColor 0 0 0 0
      | Some body \<Rightarrow> body this)"

text \<open>
  The entries of the static \<open>DefaultMatrix\<close> are single-precision literals. Those
  that are not zero have no exact binary representation, so the value each one
  denotes is the result of the compiler's conversion of the decimal to single
  precision. That conversion is the parameter \<open>f32\<close>, which is \<open>binary32\<close> on
  an IEEE 754 platform; a leading minus sign is the negation of the converted
  literal, as in the source.
\<close>

definition DefaultMatrix :: "(real \<Rightarrow> real) \<Rightarrow> FMatrix" where
  "DefaultMatrix f32 =
     FMatrix
       (FPlane (f32 1.16438356164) 0 (f32 1.792652263418) 0)
       (FPlane (f32 1.16438356164) (- f32 0.213237021569) (- f32 0.533004040142) 0)
       (FPlane (f32 1.16438356164) (f32 2.112419281991) 0 0)
       (FPlane 0 0 0 0)"

definition GetYUVToRGBMatrix ::
  "(real \<Rightarrow> real) \<Rightarrow> ('st, 'span, 'stamp, 'tc) IMediaTextureSample \<Rightarrow> 'st \<Rightarrow> FMatrix"
  where
  "GetYUVToRGBMatrix f32 c this =
     (case GetYUVToRGBMatrix_override c of
        None \<Rightarrow> DefaultMatrix f32
      | Some body \<Rightarrow> body this)"

text \<open>The default body of \<open>Reset\<close> is empty.\<close>

definition Reset ::
  "('st, 'span, 'stamp, 'tc) IMediaTextureSample \<Rightarrow> 'st \<Rightarrow> 'st" where
  "Reset c this = (case Reset_override c of None \<Rightarrow> this | Some body \<Rightarrow> body this)"

subsection \<open>Two implementing classes, as test inputs\<close>

text \<open>
  \<open>BufferSample\<close> holds a frame in CPU memory and inherits every default body: its
  state is the address of the buffer. \<open>PooledSample\<close> is the same class with every
  default body replaced; its \<open>Reset\<close> forgets the buffer. \<open>EmptySample\<close> is
  \<open>BufferSample\<close> reporting an output of width 1920 and height 0.
\<close>

definition BufferSample :: "(nat, int, int, nat) IMediaTextureSample" where
  "BufferSample =
     \<lparr>GetBuffer_impl = (\<lambda>this. (if this = 0 then nullptr else Addr this, this)),
      GetDim_impl = (\<lambda>this. \<lparr>X = 1920, Y = 1088\<rparr>),
      GetNumMips_override = None,
      GetTilingDescription_override = None,
      GetDuration_impl = (\<lambda>this. 0),
      GetFormat_impl = (\<lambda>this. CharBGRA),
      GetOutputDim_impl = (\<lambda>this. \<lparr>X = 1920, Y = 1080\<rparr>),
      GetStride_impl = (\<lambda>this. 7680),
      GetTexture_impl = (\<lambda>this. nullptr),
      GetMediaTextureSampleConverter_override = None,
      GetTime_impl = (\<lambda>this. 0),
      GetTimecode_override = None,
      IsCacheable_impl = (\<lambda>this. True),
      IsOutputSrgb_impl = (\<lambda>this. True),
      GetOrientation_override = None,
      GetAspectRatio_override = None,
      GetScaleRotation_override = None,
      GetOffset_override = None,
      GetYUVToRGBMatrix_override = None,
      Reset_override = None\<rparr>"

definition PooledSample :: "(nat, int, int, nat) IMediaTextureSample" where
  "PooledSample =
     BufferSample
       \<lparr>GetNumMips_override := Some (\<lambda>this. 4),
        GetTilingDescription_override :=
          Some (\<lambda>this. \<lparr>TileNum = \<lparr>X = 2, Y = 2\<rparr>, TileSize = \<lparr>X = 960, Y = 544\<rparr>,
                          TileBorderSize = 0\<rparr>),
        GetMediaTextureSampleConverter_override := Some (\<lambda>this. (Addr 1, this)),
        GetTimecode_override := Some (\<lambda>this. Some this),
        GetOrientation_override := Some (\<lambda>this. CW90),
        GetAspectRatio_override := Some (\<lambda>this. Finite 1),
        GetScaleRotation_override := Some (\<lambda>this. FLinearColor 0 1 (- 1) 0),
        GetOffset_override := Some (\<lambda>this. FLinearColor 1 0 0 0),
        GetYUVToRGBMatrix_override :=
          Some (\<lambda>this. FMatrix (FPlane 1 0 0 0) (FPlane 0 1 0 0) (FPlane 0 0 1 0)
                                (FPlane 0 0 0 1)),
        Reset_override := Some (\<lambda>this. 0)\<rparr>"

definition EmptySample :: "(nat, int, int, nat) IMediaTextureSample" where
  "EmptySample = BufferSample \<lparr>GetOutputDim_impl := (\<lambda>this. \<lparr>X = 1920, Y = 0\<rparr>)\<rparr>"

section \<open>Properties of the tiling description\<close>

text \<open>
  Claim C4. For every tiling description \<open>d\<close>, \<open>IsValid\<close> returns true if and only
  if \<open>TileNum.X\<close>, \<open>TileNum.Y\<close>, \<open>TileSize.X\<close> and \<open>TileSize.Y\<close> are all
  greater than zero (as signed 32-bit integers); validity does not depend on
  \<open>TileBorderSize\<close>: replacing it by any value \<open>b\<close> leaves \<open>IsValid\<close> unchanged.
\<close>

theorem IsValid_iff_positive:
  "(IsValid d \<longleftrightarrow>
      0 < sint (X (TileNum d)) \<and> 0 < sint (Y (TileNum d)) \<and>
      0 < sint (X (TileSize d)) \<and> 0 < sint (Y (TileSize d))) \<and>
   IsValid (d\<lparr>TileBorderSize := b\<rparr>) = IsValid d"
  by (simp add: IsValid_def word_sless_alt)

text \<open>
  The comparisons are signed: a component with the top bit set is negative, so a
  descriptor holding it is not valid, whatever the border size.
\<close>

lemma IsValid_examples:
  "IsValid \<lparr>TileNum = \<lparr>X = 2, Y = 2\<rparr>, TileSize = \<lparr>X = 960, Y = 544\<rparr>, TileBorderSize = - 7\<rparr>"
  "\<not> IsValid \<lparr>TileNum = \<lparr>X = - 1, Y = 2\<rparr>, TileSize = \<lparr>X = 960, Y = 544\<rparr>, TileBorderSize = 4\<rparr>"
  "\<not> IsValid \<lparr>TileNum = \<lparr>X = 2, Y = 2\<rparr>, TileSize = \<lparr>X = 960, Y = 0\<rparr>, TileBorderSize = 4\<rparr>"
  by (simp_all add: IsValid_def word_sless_alt)

section \<open>Default bodies of IMediaTextureSample\<close>

text \<open>
  Claim C6. For every sample whose class does not override \<open>GetNumMips\<close>, the
  method returns 1; for every sample whose class does not override
  \<open>GetTilingDescription\<close>, the method returns the default-constructed descriptor,
  whose fields are all zero, and \<open>IsValid\<close> returns false for it.
\<close>

theorem default_NumMips_and_TilingDescription:
  "(GetNumMips_override c = None \<longrightarrow> GetNumMips c this = 1) \<and>
   (GetTilingDescription_override c = None \<longrightarrow>
      GetTilingDescription c this =
        \<lparr>TileNum = \<lparr>X = 0, Y = 0\<rparr>, TileSize = \<lparr>X = 0, Y = 0\<rparr>, TileBorderSize = 0\<rparr> \<and>
      \<not> IsValid (GetTilingDescription c this))"
  by (simp add: GetNumMips_def GetTilingDescription_def
      FMediaTextureTilingDescription_default_def ZeroValue_def IsValid_def)

theorem default_NumMips_and_TilingDescription_witness:
  "GetNumMips_override BufferSample = None \<and>
   GetTilingDescription_override BufferSample = None \<and>
   GetNumMips BufferSample 4096 = 1 \<and>
   GetTilingDescription BufferSample 4096 =
     \<lparr>TileNum = \<lparr>X = 0, Y = 0\<rparr>, TileSize = \<lparr>X = 0, Y = 0\<rparr>, TileBorderSize = 0\<rparr> \<and>
   \<not> IsValid (GetTilingDescription BufferSample 4096)"
proof -
  have "GetNumMips_override BufferSample = None"
    and "GetTilingDescription_override BufferSample = None"
    by (simp_all add: BufferSample_def)
  with default_NumMips_and_TilingDescription [of BufferSample 4096]
  show ?thesis by blast
qed

text \<open>
  Claim C7. For every sample whose class does not override them, the geometric
  defaults are the identity transform: \<open>GetOrientation\<close> returns
  \<open>EMediaOrientation::Original\<close>, \<open>GetScaleRotation\<close> returns (1, 0, 0, 1), the
  rows of the 2x2 identity, and \<open>GetOffset\<close> returns (0, 0, 0, 0). Each default
  holds as soon as its own method is not overridden.
\<close>

theorem default_geometry_is_identity:
  "(GetOrientation_override c = None \<longrightarrow> GetOrientation c this = Original) \<and>
   (GetScaleRotation_override c = None \<longrightarrow> GetScaleRotation c this = FLinearColor 1 0 0 1) \<and>
   (GetOffset_override c = None \<longrightarrow> GetOffset c this = FLinearColor 0 0 0 0)"
  by (simp add: GetOrientation_def GetScaleRotation_def GetOffset_def)

theorem default_geometry_is_identity_witness:
  "GetOrientation_override BufferSample = None \<and>
   GetScaleRotation_override BufferSample = None \<and>
   GetOffset_override BufferSample = None \<and>
   GetOrientation BufferSample 4096 = Original \<and>
   GetScaleRotation BufferSample 4096 = FLinearColor 1 0 0 1 \<and>
   GetOffset BufferSample 4096 = FLinearColor 0 0 0 0"
  using default_geometry_is_identity [of BufferSample 4096]
  by (simp add: BufferSample_def)

text \<open>
  Claim C8. For every sample whose class does not override \<open>GetTimecode\<close>, the
  result is the unset optional, which signals that no timecode is available.
  Absence is represented by the optional alone: whatever the class, the method
  returns either the unset optional or a timecode, and has no error result.
\<close>

theorem default_Timecode_unset:
  "(GetTimecode_override c = None \<longrightarrow> GetTimecode c this = None) \<and>
   (GetTimecode c this = None \<or> (\<exists>tc. GetTimecode c this = Some tc))"
  by (cases "GetTimecode c this") (simp_all add: GetTimecode_def)

theorem default_Timecode_unset_witness:
  "GetTimecode_override BufferSample = None \<and> GetTimecode BufferSample 4096 = None"
  using default_Timecode_unset [of BufferSample 4096]
  by (simp add: BufferSample_def)

text \<open>
  Claim C10. For every sample whose class does not override
  \<open>GetMediaTextureSampleConverter\<close> (a member of engine builds only), the method
  returns null, which says that the sample has no converter of its own; the call
  leaves the sample as it was.
\<close>

theorem default_Converter_null:
  "GetMediaTextureSampleConverter_override c = None \<Longrightarrow>
   GetMediaTextureSampleConverter c this = (nullptr, this)"
  by (simp add: GetMediaTextureSampleConverter_def)

theorem default_Converter_null_witness:
  "GetMediaTextureSampleConverter_override BufferSample = None \<and>
   GetMediaTextureSampleConverter BufferSample 4096 = (nullptr, 4096)"
  using default_Converter_null [of BufferSample 4096]
  by (simp add: BufferSample_def)

text \<open>
  Claim C9. For every sample whose class does not override \<open>Reset\<close>, calling
  \<open>Reset\<close> has no effect: the sample's state is unchanged, and each of the sixteen
  accessors \<open>GetBuffer\<close>, \<open>GetDim\<close>, \<open>GetOutputDim\<close>, \<open>GetStride\<close>, \<open>GetFormat\<close>,
  \<open>GetDuration\<close>, \<open>GetTime\<close>, \<open>GetNumMips\<close>, \<open>GetTilingDescription\<close>,
  \<open>GetOrientation\<close>, \<open>GetScaleRotation\<close>, \<open>GetOffset\<close>, \<open>GetYUVToRGBMatrix\<close>,
  \<open>GetTimecode\<close>, \<open>IsCacheable\<close> and \<open>IsOutputSrgb\<close> returns after the call what
  it returns before it, whether or not the class overrides the accessor.
\<close>

theorem default_Reset_no_effect:
  "Reset_override c = None \<Longrightarrow>
   Reset c this = this \<and>
   GetBuffer c (Reset c this) = GetBuffer c this \<and>
   GetDim c (Reset c this) = GetDim c this \<and>
   GetOutputDim c (Reset c this) = GetOutputDim c this \<and>
   GetStride c (Reset c this) = GetStride c this \<and>
   GetFormat c (Reset c this) = GetFormat c this \<and>
   GetDuration c (Reset c this) = GetDuration c this \<and>
   GetTime c (Reset c this) = GetTime c this \<and>
   GetNumMips c (Reset c this) = GetNumMips c this \<and>
   GetTilingDescription c (Reset c this) = GetTilingDescription c this \<and>
   GetOrientation c (Reset c this) = GetOrientation c this \<and>
   GetScaleRotation c (Reset c this) = GetScaleRotation c this \<and>
   GetOffset c (Reset c this) = GetOffset c this \<and>
   GetYUVToRGBMatrix f32 c (Reset c this) = GetYUVToRGBMatrix f32 c this \<and>
   GetTimecode c (Reset c this) = GetTimecode c this \<and>
   IsCacheable c (Reset c this) = IsCacheable c this \<and>
   IsOutputSrgb c (Reset c this) = IsOutputSrgb c this"
  by (simp add: Reset_def)

theorem default_Reset_no_effect_witness:
  "Reset_override BufferSample = None \<and>
   Reset BufferSample 4096 = 4096 \<and>
   GetBuffer BufferSample (Reset BufferSample 4096) = (Addr 4096, 4096) \<and>
   GetBuffer BufferSample 4096 = (Addr 4096, 4096)"
  using default_Reset_no_effect [of BufferSample 4096]
  by (simp add: BufferSample_def GetBuffer_def)

section \<open>Floating-point results\<close>

text \<open>
  Once the binary exponent \<open>e\<close> of \<open>x\<close> is known, \<open>ieee_round\<close> is a rounding of
  \<open>x\<close> measured in units of \<open>2 powi (e - (p - 1))\<close>; this is how the values below
  are computed.
\<close>

lemma ieee_round_eval:
  assumes "2 powi e \<le> \<bar>x\<bar>" "\<bar>x\<bar> < 2 powi (e + 1)" "emin \<le> e"
  shows "ieee_round p emin x =
           of_int (round_half_even (x / 2 powi (e - (int p - 1)))) * 2 powi (e - (int p - 1))"
proof -
  have "0 < (2::real) powi e"
    by simp
  with assms(1) have pos: "0 < \<bar>x\<bar>"
    by linarith
  have lo: "2 powr real_of_int e = 2 powi e"
    by (simp add: powr_real_of_int')
  have hi: "2 powr real_of_int (e + 1) = 2 powi (e + 1)"
    by (rule powr_real_of_int') simp_all
  have "2 powr real_of_int e \<le> \<bar>x\<bar> \<and> \<bar>x\<bar> < 2 powr real_of_int (e + 1)"
    using assms(1,2) by (simp only: lo hi)
  moreover have "(1::real) < 2"
    by simp
  ultimately have "\<lfloor>log 2 \<bar>x\<bar>\<rfloor> = e"
    using pos floor_log_eq_powr_iff [of "\<bar>x\<bar>" 2 e] by blast
  with pos assms(3) show ?thesis
    by (simp add: ieee_round_def max_def Let_def)
qed

text \<open>The single-precision values of the five literals of \<open>DefaultMatrix\<close>.\<close>

lemma binary32_literals:
  "binary32 1.16438356164 = 1.16438353061676025390625"
  "binary32 1.792652263418 = 1.79265224933624267578125"
  "binary32 0.213237021569 = 0.2132370173931121826171875"
  "binary32 0.533004040142 = 0.5330040454864501953125"
  "binary32 2.112419281991 = 2.1124193668365478515625"
proof -
  show "binary32 1.16438356164 = 1.16438353061676025390625"
    unfolding binary32_def
    by (subst ieee_round_eval [where e = 0]) (simp_all add: round_half_even_def)
  show "binary32 1.792652263418 = 1.79265224933624267578125"
    unfolding binary32_def
    by (subst ieee_round_eval [where e = 0]) (simp_all add: round_half_even_def)
  show "binary32 0.213237021569 = 0.2132370173931121826171875"
    unfolding binary32_def
    by (subst ieee_round_eval [where e = "- 3"])
       (simp_all add: round_half_even_def power_int_minus)
  show "binary32 0.533004040142 = 0.5330040454864501953125"
    unfolding binary32_def
    by (subst ieee_round_eval [where e = "- 1"])
       (simp_all add: round_half_even_def power_int_minus)
  show "binary32 2.112419281991 = 2.1124193668365478515625"
    unfolding binary32_def
    by (subst ieee_round_eval [where e = 1]) (simp_all add: round_half_even_def)
qed

text \<open>
  No binary floating-point number, of whatever precision and however rounded,
  equals the decimal 1.16438356164: its denominator has the factor 5. So no
  conversion into a binary format makes the entries of \<open>DefaultMatrix\<close> the
  decimals that the literals spell.
\<close>

lemma literal_not_binary: "(1.16438356164 :: real) \<noteq> of_int m / 2 ^ k"
proof
  assume "(1.16438356164 :: real) = of_int m / 2 ^ k"
  then have "real_of_int (116438356164 * 2 ^ k) = real_of_int (m * 10 ^ 11)"
    by (simp add: field_simps)
  then have eq: "116438356164 * 2 ^ k = m * 10 ^ 11"
    by (simp only: of_int_eq_iff)
  have "(5::int) dvd m * 10 ^ 11"
    by simp
  then have "(5::int) dvd 116438356164 * 2 ^ k"
    by (simp only: eq)
  moreover have "coprime (5::int) (2 ^ k)"
    by simp
  ultimately have "(5::int) dvd 116438356164"
    using coprime_dvd_mult_left_iff by blast
  then show False by simp
qed

lemma DefaultMatrix_not_decimal:
  assumes "f32 1.16438356164 = of_int m / 2 ^ k"
  shows "DefaultMatrix f32 \<noteq>
     FMatrix
       (FPlane 1.16438356164 0 1.792652263418 0)
       (FPlane 1.16438356164 (- 0.213237021569) (- 0.533004040142) 0)
       (FPlane 1.16438356164 2.112419281991 0 0)
       (FPlane 0 0 0 0)"
proof
  assume "DefaultMatrix f32 =
     FMatrix
       (FPlane 1.16438356164 0 1.792652263418 0)
       (FPlane 1.16438356164 (- 0.213237021569) (- 0.533004040142) 0)
       (FPlane 1.16438356164 2.112419281991 0 0)
       (FPlane 0 0 0 0)"
  then have "f32 1.16438356164 = 1.16438356164"
    by (simp add: DefaultMatrix_def)
  with assms have "(1.16438356164 :: real) = of_int m / 2 ^ k"
    by simp
  then show False
    using literal_not_binary by blast
qed

text \<open>
  Claim C3, as amended. For every sample whose class does not override
  \<open>GetYUVToRGBMatrix\<close>, the method returns the fixed matrix whose entries are the
  single-precision values of the literals 1.16438356164f, 1.792652263418f,
  -0.213237021569f, -0.533004040142f, 2.112419281991f and 0, in the rows of the
  source. With IEEE 754 rounding to nearest these values are
  (1.16438353061676025390625, 0, 1.79265224933624267578125, 0),
  (1.16438353061676025390625, -0.2132370173931121826171875,
  -0.5330040454864501953125, 0),
  (1.16438353061676025390625, 2.1124193668365478515625, 0, 0) and (0, 0, 0, 0).
\<close>

theorem default_YUVToRGBMatrix_single_precision:
  "GetYUVToRGBMatrix_override c = None \<Longrightarrow>
   GetYUVToRGBMatrix f32 c this =
     FMatrix
       (FPlane (f32 1.16438356164) 0 (f32 1.792652263418) 0)
       (FPlane (f32 1.16438356164) (- f32 0.213237021569) (- f32 0.533004040142) 0)
       (FPlane (f32 1.16438356164) (f32 2.112419281991) 0 0)
       (FPlane 0 0 0 0) \<and>
   GetYUVToRGBMatrix binary32 c this =
     FMatrix
       (FPlane 1.16438353061676025390625 0 1.79265224933624267578125 0)
       (FPlane 1.16438353061676025390625 (- 0.2132370173931121826171875)
          (- 0.5330040454864501953125) 0)
       (FPlane 1.16438353061676025390625 2.1124193668365478515625 0 0)
       (FPlane 0 0 0 0)"
  by (simp only: GetYUVToRGBMatrix_def DefaultMatrix_def binary32_literals option.case
      simp_thms)

theorem default_YUVToRGBMatrix_single_precision_witness:
  "GetYUVToRGBMatrix_override BufferSample = None \<and>
   GetYUVToRGBMatrix binary32 BufferSample 4096 =
     FMatrix
       (FPlane 1.16438353061676025390625 0 1.79265224933624267578125 0)
       (FPlane 1.16438353061676025390625 (- 0.2132370173931121826171875)
          (- 0.5330040454864501953125) 0)
       (FPlane 1.16438353061676025390625 2.1124193668365478515625 0 0)
       (FPlane 0 0 0 0)"
proof -
  have "GetYUVToRGBMatrix_override BufferSample = None"
    by (simp add: BufferSample_def)
  with default_YUVToRGBMatrix_single_precision [of BufferSample binary32 4096]
  show ?thesis by blast
qed

text \<open>
  The matrix is not, value for value, the matrix of the decimals themselves: the
  sample \<open>BufferSample\<close> overrides nothing, and its entry in row 0, column 0 is
  1.16438353061676025390625, not 1.16438356164.
\<close>

theorem default_YUVToRGBMatrix_not_the_decimals:
  "GetYUVToRGBMatrix_override BufferSample = None \<and>
   GetYUVToRGBMatrix binary32 BufferSample 4096 \<noteq>
     FMatrix
       (FPlane 1.16438356164 0 1.792652263418 0)
       (FPlane 1.16438356164 (- 0.213237021569) (- 0.533004040142) 0)
       (FPlane 1.16438356164 2.112419281991 0 0)
       (FPlane 0 0 0 0)"
proof -
  have none: "GetYUVToRGBMatrix_override BufferSample = None"
    by (simp add: BufferSample_def)
  have "binary32 1.16438356164 \<noteq> 1.16438356164"
    by (simp only: binary32_literals) simp
  then have "DefaultMatrix binary32 \<noteq>
     FMatrix
       (FPlane 1.16438356164 0 1.792652263418 0)
       (FPlane 1.16438356164 (- 0.213237021569) (- 0.533004040142) 0)
       (FPlane 1.16438356164 2.112419281991 0 0)
       (FPlane 0 0 0 0)"
    by (simp add: DefaultMatrix_def)
  with none show ?thesis
    by (simp add: GetYUVToRGBMatrix_def)
qed

text \<open>
  Rounding moves a number to one of its two neighbours among the integers, and so
  keeps it within the binade it lies in: the rounded magnitude of a number between
  \<open>2 powi e\<close> and \<open>2 powi (e + 1)\<close> lies between the same bounds.
\<close>

lemma round_half_even_between:
  "\<lfloor>y\<rfloor> \<le> round_half_even y \<and> round_half_even y \<le> \<lceil>y\<rceil>"
proof -
  have "\<lceil>y\<rceil> = \<lfloor>y\<rfloor> + 1" if "y - of_int \<lfloor>y\<rfloor> \<noteq> 0"
    using that by (simp add: ceiling_altdef)
  moreover have "\<lfloor>y\<rfloor> \<le> \<lceil>y\<rceil>"
    by (simp add: floor_le_ceiling)
  ultimately show ?thesis
    by (auto simp add: round_half_even_def Let_def)
qed

lemma round_half_even_magnitude:
  assumes "of_int N \<le> \<bar>y\<bar>" "\<bar>y\<bar> < of_int (2 * N)" "0 < N"
  shows "N \<le> \<bar>round_half_even y\<bar> \<and> \<bar>round_half_even y\<bar> \<le> 2 * N"
proof (cases "0 \<le> y")
  case True
  with assms have "N \<le> \<lfloor>y\<rfloor>" "\<lceil>y\<rceil> \<le> 2 * N"
    by (simp_all add: le_floor_iff ceiling_le_iff)
  with round_half_even_between [of y] assms(3) show ?thesis
    by linarith
next
  case False
  with assms have "- (2 * N) \<le> \<lfloor>y\<rfloor>" "\<lceil>y\<rceil> \<le> - N"
    by (simp_all add: le_floor_iff ceiling_le_iff)
  with round_half_even_between [of y] assms(3) show ?thesis
    by linarith
qed

lemma ieee_round_magnitude:
  assumes "2 powi e \<le> \<bar>x\<bar>" "\<bar>x\<bar> < 2 powi (e + 1)" "emin \<le> e" "0 < p"
  shows "2 powi e \<le> \<bar>ieee_round p emin x\<bar> \<and> \<bar>ieee_round p emin x\<bar> \<le> 2 powi (e + 1)"
proof -
  define u :: real where "u = 2 powi (e - (int p - 1))"
  define N :: int where "N = 2 ^ (p - 1)"
  define m :: int where "m = \<bar>round_half_even (x / u)\<bar>"
  have u: "0 < u"
    by (simp add: u_def)
  have "real_of_int N = 2 powi int (p - 1)"
    by (simp add: N_def)
  moreover have "int (p - 1) = int p - 1"
    using assms(4) by linarith
  ultimately have N: "real_of_int N = 2 powi (int p - 1)"
    by (simp only:)
  have "(2::real) powi ((int p - 1) + (e - (int p - 1))) =
          2 powi (int p - 1) * 2 powi (e - (int p - 1))"
    by (rule power_int_add) simp
  then have Nu: "real_of_int N * u = 2 powi e"
    by (simp only: N u_def) simp
  have "(2::real) powi (e + 1) = 2 powi e * 2 powi 1"
    by (rule power_int_add) simp
  then have Nu2: "real_of_int (2 * N) * u = 2 powi (e + 1)"
    by (simp only: Nu [symmetric]) simp
  have lo: "real_of_int N \<le> \<bar>x\<bar> / u"
    using assms(1) u by (simp only: Nu [symmetric] pos_le_divide_eq)
  have hi: "\<bar>x\<bar> / u < real_of_int (2 * N)"
    using assms(2) u by (simp only: Nu2 [symmetric] pos_divide_less_eq)
  have "\<bar>x / u\<bar> = \<bar>x\<bar> / u"
    using u by simp
  with lo hi have "of_int N \<le> \<bar>x / u\<bar>" "\<bar>x / u\<bar> < of_int (2 * N)"
    by (simp_all only:)
  moreover have "0 < N"
    by (simp add: N_def)
  ultimately have rhe: "N \<le> m" "m \<le> 2 * N"
    unfolding m_def using round_half_even_magnitude by blast+
  have "ieee_round p emin x = real_of_int (round_half_even (x / u)) * u"
    unfolding u_def by (rule ieee_round_eval [OF assms(1-3)])
  then have r: "\<bar>ieee_round p emin x\<bar> = real_of_int m * u"
    using u by (simp add: abs_mult m_def)
  have "real_of_int N * u \<le> real_of_int m * u"
    using rhe(1) u by (simp only: mult_le_cancel_right_pos of_int_le_iff)
  moreover have "real_of_int m * u \<le> real_of_int (2 * N) * u"
    using rhe(2) u by (simp only: mult_le_cancel_right_pos of_int_le_iff)
  ultimately show ?thesis
    by (simp only: r Nu Nu2 simp_thms)
qed

text \<open>
  The quotient of two nonzero 32-bit integers has a magnitude between \<open>2 powi (- 31)\<close>
  and \<open>2 powi 31\<close>, far inside the range of \<open>double\<close>: its division neither
  overflows nor underflows, and the result is the rounded quotient.
\<close>

lemma int32_quotient_exponent:
  fixes i j :: int
  assumes "i \<noteq> 0" "j \<noteq> 0" "\<bar>i\<bar> \<le> 2 ^ 31" "\<bar>j\<bar> \<le> 2 ^ 31"
  defines "q \<equiv> real_of_int i / real_of_int j"
  defines "e \<equiv> \<lfloor>log 2 \<bar>q\<bar>\<rfloor>"
  shows "- 31 \<le> e \<and> e \<le> 31 \<and> 2 powi e \<le> \<bar>q\<bar> \<and> \<bar>q\<bar> < 2 powi (e + 1)"
proof -
  have i: "1 \<le> \<bar>real_of_int i\<bar>" "\<bar>real_of_int i\<bar> \<le> 2 ^ 31"
    using assms(1,3) by (simp_all flip: of_int_abs add: of_int_le_numeral_power_cancel_iff)
  have j: "1 \<le> \<bar>real_of_int j\<bar>" "\<bar>real_of_int j\<bar> \<le> 2 ^ 31"
    using assms(2,4) by (simp_all flip: of_int_abs add: of_int_le_numeral_power_cancel_iff)
  have q: "\<bar>q\<bar> = \<bar>real_of_int i\<bar> / \<bar>real_of_int j\<bar>"
    by (simp add: q_def)
  have pos: "0 < \<bar>q\<bar>"
    using assms(1,2) by (simp add: q_def)
  have "1 / 2 ^ 31 \<le> \<bar>real_of_int i\<bar> / \<bar>real_of_int j\<bar>"
    using i(1) j by (intro frac_le) simp_all
  then have lo: "2 powr (- 31) \<le> \<bar>q\<bar>"
    by (simp add: q powr_minus_divide)
  have "\<bar>real_of_int i\<bar> / \<bar>real_of_int j\<bar> \<le> 2 ^ 31 / 1"
    using i j(1) by (intro frac_le) simp_all
  then have hi: "\<bar>q\<bar> \<le> 2 powr 31"
    by (simp add: q)
  have "real_of_int (- 31) \<le> log 2 \<bar>q\<bar>"
    using lo pos by (simp add: le_log_iff)
  then have e1: "- 31 \<le> e"
    unfolding e_def by (simp only: le_floor_iff)
  have "log 2 \<bar>q\<bar> \<le> 31"
    using hi pos by (simp add: log_le_iff)
  then have "e \<le> \<lfloor>31 :: real\<rfloor>"
    unfolding e_def by (rule floor_mono)
  then have e2: "e \<le> 31"
    by simp
  have "2 powr real_of_int e \<le> \<bar>q\<bar> \<and> \<bar>q\<bar> < 2 powr real_of_int (e + 1)"
    using floor_log_eq_powr_iff [of "\<bar>q\<bar>" 2 e] pos by (simp add: e_def)
  moreover have "2 powr real_of_int e = 2 powi e"
    by (simp add: powr_real_of_int')
  moreover have "2 powr real_of_int (e + 1) = 2 powi (e + 1)"
    by (rule powr_real_of_int') simp_all
  ultimately have "2 powi e \<le> \<bar>q\<bar> \<and> \<bar>q\<bar> < 2 powi (e + 1)"
    by (simp only:)
  with e1 e2 show ?thesis
    by blast
qed

lemma double_of_real_int32_quotient:
  fixes i j :: int
  assumes "i \<noteq> 0" "j \<noteq> 0" "\<bar>i\<bar> \<le> 2 ^ 31" "\<bar>j\<bar> \<le> 2 ^ 31"
  shows "double_of_real (real_of_int i / real_of_int j) =
           Finite (ieee_round 53 (- 1022) (real_of_int i / real_of_int j))"
proof -
  define q where "q = real_of_int i / real_of_int j"
  define e where "e = \<lfloor>log 2 \<bar>q\<bar>\<rfloor>"
  define r where "r = ieee_round 53 (- 1022) q"
  have e: "- 31 \<le> e" "e \<le> 31" "2 powi e \<le> \<bar>q\<bar>" "\<bar>q\<bar> < 2 powi (e + 1)"
    using int32_quotient_exponent [OF assms] by (simp_all only: q_def e_def)
  have "2 powi e \<le> \<bar>r\<bar> \<and> \<bar>r\<bar> \<le> 2 powi (e + 1)"
    unfolding r_def using e(1) by (intro ieee_round_magnitude e(3,4)) simp_all
  moreover have "0 < (2::real) powi e"
    by simp
  moreover have "(2::real) powi (e + 1) \<le> 2 powi 32"
    using e(2) by (intro power_int_increasing) simp_all
  moreover have "(2::real) powi 32 < 2 ^ 1024"
    by simp
  ultimately have "r \<noteq> 0" "\<not> 2 ^ 1024 \<le> \<bar>r\<bar>"
    by linarith+
  then show ?thesis
    by (simp add: double_of_real_def Let_def flip: r_def q_def)
qed

lemma sint_int32_range: "\<bar>sint (w :: int32)\<bar> \<le> 2 ^ 31"
  using sint_ge [of w] sint_lt [of w] by simp

text \<open>
  The division of two converted integers, by cases on the integers. A zero
  divisor is an operand like any other.
\<close>

lemma sint_eq_0_iff32: "sint (w :: int32) = 0 \<longleftrightarrow> w = 0"
  by (metis signed_eq_0_iff)

lemma double_div_of_int:
  "double_div (Finite (real_of_int i)) (Finite (real_of_int j)) =
     (if j = 0 then (if i = 0 then NaN else if 0 < i then PlusInf else MinusInf)
      else if i = 0 then (if j < 0 then MinusZero else Finite 0)
      else double_of_real (real_of_int i / real_of_int j))"
  by (auto simp add: double_div_def is_zero_def is_inf_def)

text \<open>
  Claim C5. For every sample whose class does not override \<open>GetAspectRatio\<close>, the
  method returns the \<open>double\<close> quotient of \<open>GetOutputDim().X\<close> and
  \<open>GetOutputDim().Y\<close>, each converted to \<open>double\<close>. The division is not guarded:
  the equation holds for every output dimension, and when \<open>Y\<close> is zero the result
  is not a number (for \<open>X\<close> zero) or an infinity with the sign of \<open>X\<close>; the header
  says nothing about that case. When \<open>Y\<close> is not zero the result is finite: the
  real quotient rounded to double precision, or a signed zero when \<open>X\<close> is zero.
\<close>

theorem default_AspectRatio_unguarded_division:
  "GetAspectRatio_override c = None \<Longrightarrow>
   GetAspectRatio c this =
     double_div (double_of_int32 (X (GetOutputDim c this)))
                (double_of_int32 (Y (GetOutputDim c this))) \<and>
   GetAspectRatio c this =
     (if Y (GetOutputDim c this) = 0 then
        (if X (GetOutputDim c this) = 0 then NaN
         else if 0 <s X (GetOutputDim c this) then PlusInf
         else MinusInf)
      else if X (GetOutputDim c this) = 0 then
        (if Y (GetOutputDim c this) <s 0 then MinusZero else Finite 0)
      else Finite (ieee_round 53 (- 1022)
                     (real_of_int (sint (X (GetOutputDim c this))) /
                      real_of_int (sint (Y (GetOutputDim c this))))))"
proof -
  assume none: "GetAspectRatio_override c = None"
  let ?x = "X (GetOutputDim c this)" and ?y = "Y (GetOutputDim c this)"
  have call: "GetAspectRatio c this = double_div (double_of_int32 ?x) (double_of_int32 ?y)"
    using none by (simp add: GetAspectRatio_def Let_def)
  have cases: "double_div (double_of_int32 ?x) (double_of_int32 ?y) =
     (if ?y = 0 then (if ?x = 0 then NaN else if 0 <s ?x then PlusInf else MinusInf)
      else if ?x = 0 then (if ?y <s 0 then MinusZero else Finite 0)
      else double_of_real (real_of_int (sint ?x) / real_of_int (sint ?y)))"
    by (simp only: double_of_int32_def double_div_of_int word_sless_alt sint_0
        sint_eq_0_iff32)
  have finite: "double_of_real (real_of_int (sint ?x) / real_of_int (sint ?y)) =
      Finite (ieee_round 53 (- 1022) (real_of_int (sint ?x) / real_of_int (sint ?y)))"
    if "?x \<noteq> 0" "?y \<noteq> 0"
  proof (rule double_of_real_int32_quotient)
    show "sint ?x \<noteq> 0" "sint ?y \<noteq> 0"
      using that by (simp_all only: sint_eq_0_iff32 not_False_eq_True)
    show "\<bar>sint ?x\<bar> \<le> 2 ^ 31" "\<bar>sint ?y\<bar> \<le> 2 ^ 31"
      by (rule sint_int32_range)+
  qed
  have "double_div (double_of_int32 ?x) (double_of_int32 ?y) =
     (if ?y = 0 then (if ?x = 0 then NaN else if 0 <s ?x then PlusInf else MinusInf)
      else if ?x = 0 then (if ?y <s 0 then MinusZero else Finite 0)
      else Finite (ieee_round 53 (- 1022) (real_of_int (sint ?x) / real_of_int (sint ?y))))"
  proof (cases "?x = 0 \<or> ?y = 0")
    case True
    with cases show ?thesis by auto
  next
    case False
    with cases finite show ?thesis by (simp only: de_Morgan_disj if_False) simp
  qed
  with call show ?thesis
    by (simp only: simp_thms)
qed

theorem default_AspectRatio_unguarded_division_witness:
  "GetAspectRatio_override BufferSample = None \<and>
   GetAspectRatio BufferSample 4096 = Finite (2001599834386887 / 2 ^ 50) \<and>
   GetAspectRatio_override EmptySample = None \<and>
   GetAspectRatio EmptySample 4096 = PlusInf"
proof -
  have b: "GetAspectRatio_override BufferSample = None"
    and e: "GetAspectRatio_override EmptySample = None"
    by (simp_all add: BufferSample_def EmptySample_def)
  have bd: "GetOutputDim BufferSample 4096 = \<lparr>X = 1920, Y = 1080\<rparr>"
    and ed: "GetOutputDim EmptySample 4096 = \<lparr>X = 1920, Y = 0\<rparr>"
    by (simp_all add: GetOutputDim_def BufferSample_def EmptySample_def)
  have r: "ieee_round 53 (- 1022) (1920 / 1080) = 2001599834386887 / 2 ^ 50"
    by (subst ieee_round_eval [where e = 0]) (simp_all add: round_half_even_def)
  have "GetAspectRatio BufferSample 4096 = Finite (ieee_round 53 (- 1022) (1920 / 1080))"
    using default_AspectRatio_unguarded_division [OF b, of 4096, THEN conjunct2]
    by (simp add: bd)
  then have "GetAspectRatio BufferSample 4096 = Finite (2001599834386887 / 2 ^ 50)"
    by (simp only: r)
  moreover have "GetAspectRatio EmptySample 4096 = PlusInf"
    using default_AspectRatio_unguarded_division [OF e, of 4096, THEN conjunct2]
    by (simp add: ed word_sless_alt)
  ultimately show ?thesis
    using b e by simp
qed

section \<open>Overriding classes\<close>

text \<open>
  The defaults are properties of the header's bodies, not of the interface: a class
  that overrides a method answers with its own body, and a class that overrides
  \<open>Reset\<close> may change what the accessors return.
\<close>

lemma overridden_bodies_are_dispatched:
  "GetNumMips PooledSample this = 4"
  "IsValid (GetTilingDescription PooledSample this)"
  "GetMediaTextureSampleConverter PooledSample this = (Addr 1, this)"
  "GetTimecode PooledSample this = Some this"
  "GetOrientation PooledSample this = CW90"
  "GetAspectRatio PooledSample this = Finite 1"
  "GetScaleRotation PooledSample this = FLinearColor 0 1 (- 1) 0"
  "GetOffset PooledSample this = FLinearColor 1 0 0 0"
  "GetYUVToRGBMatrix f32 PooledSample this =
     FMatrix (FPlane 1 0 0 0) (FPlane 0 1 0 0) (FPlane 0 0 1 0) (FPlane 0 0 0 1)"
  by (simp_all add: PooledSample_def GetNumMips_def GetTilingDescription_def IsValid_def
      GetMediaTextureSampleConverter_def GetTimecode_def GetOrientation_def
      GetAspectRatio_def GetScaleRotation_def GetOffset_def GetYUVToRGBMatrix_def word_sless_alt)

lemma overridden_Reset_changes_GetBuffer:
  "Reset PooledSample 4096 = 0"
  "GetBuffer PooledSample 4096 = (Addr 4096, 4096)"
  "GetBuffer PooledSample (Reset PooledSample 4096) = (nullptr, 0)"
  by (simp_all add: PooledSample_def BufferSample_def Reset_def GetBuffer_def)

end
